theory Spec2Isabelle
  imports Main "HOL-Library.Word"
begin

section \<open>The recipe backend (server.js)\<close>

text \<open>
  The service is a set of HTTP handlers over a relational store with the tables
  \<open>users\<close> and \<open>recipes\<close>. Each handler is embedded as a function from the request and
  the store to the response sent and the store afterwards. The libraries the handlers
  call (token signing, password hashing, the e-mail syntax check) are parameters, kept in
  a record \<open>env\<close>; so are the clock and the salt drawn while a request is served.
\<close>

subsection \<open>Values of request bodies and responses\<close>

text \<open>
  The handlers read the fields of \<open>req.body\<close> without looking at their types. A field is
  absent (\<open>Undefined\<close>) or holds a scalar of JSON: \<open>null\<close>, a boolean, a number or a string.
  A number is a signed integer of 32 bits, which JavaScript prints in decimal and the
  driver of the store binds as an INTEGER. Fractions and larger numbers, arrays and
  objects are left out: what the validator and the driver make of them changes from one
  version of these libraries to the next.
\<close>

datatype jsval = Undefined | Null | Bool bool | Num "32 word" | Str string

record req_body =
  name :: jsval
  email :: jsval
  password :: jsval
  title :: jsval
  description :: jsval
  ingredients :: jsval
  instructions :: jsval
  categoryId :: jsval
  imageUrl :: jsval

text \<open>
  The request: the \<open>Authorization\<close> header (if sent), the parsed body, and the \<open>:id\<close> path
  parameter. The parameter is bound to \<open>WHERE id = ?\<close> and nothing else is done with it, so
  it is taken as the integer the store compares with the primary key (a path segment that
  is no number equals no key, as an integer that no row has).
\<close>

record request =
  authorization :: "string option"
  body :: req_body
  params_id :: int

text \<open>The argument of \<open>res.json\<close>, and the response: a status and that argument.\<close>

datatype json =
    JUndefined
  | JNull
  | JBool bool
  | JNum int
  | JStr string
  | JArr "json list"
  | JObj "(string \<times> json) list"

datatype response = Response nat json | NoResponse

text \<open>
  \<open>NoResponse\<close> stands for a handler that throws before it answers: the hash and the
  comparison reject a password that is not a string, and nothing catches what they throw.
\<close>

text \<open>A field of the body put into a response as it is.\<close>

fun to_json :: "jsval \<Rightarrow> json" where
  "to_json Undefined = JUndefined"
| "to_json Null = JNull"
| "to_json (Bool b) = JBool b"
| "to_json (Num n) = JNum (sint n)"
| "to_json (Str s) = JStr s"

text \<open>The decimal text of an integer: \<open>String(n)\<close> in JavaScript, and a cast to TEXT in SQL.\<close>

definition digit_char :: "nat \<Rightarrow> char" where
  "digit_char k = ''0123456789'' ! k"

fun digits :: "nat \<Rightarrow> string" where
  "digits n = (if n < 10 then [digit_char n] else digits (n div 10) @ [digit_char (n mod 10)])"

definition decimal :: "int \<Rightarrow> string" where
  "decimal n = (if n < 0 then CHR ''-'' # digits (nat (- n)) else digits (nat n))"

subsection \<open>The libraries and the surroundings of a request\<close>

record env =
  jwt_sign :: "int \<Rightarrow> nat \<Rightarrow> string"
  jwt_verify :: "string \<Rightarrow> nat \<Rightarrow> int option"
  bcrypt_hash :: "string \<Rightarrow> string \<Rightarrow> string"
  bcrypt_compare :: "string \<Rightarrow> string \<Rightarrow> bool"
  isEmail :: "string \<Rightarrow> bool"
  integer_of_text :: "string \<Rightarrow> int option"

text \<open>
  \<open>jwt_sign env uid t\<close> is the token signed at time \<open>t\<close> with the secret of the service for
  the payload \<open>{id: uid}\<close>, valid for one hour; \<open>jwt_verify env tok t\<close> is the \<open>id\<close> of the
  payload when the signature and the expiry of \<open>tok\<close> check at time \<open>t\<close>, and \<open>None\<close> when the
  check fails. \<open>bcrypt_hash env p s\<close> hashes \<open>p\<close> with the salt \<open>s\<close>, and
  \<open>bcrypt_compare env p h\<close> tells whether \<open>p\<close> matches the hash \<open>h\<close>.
  \<open>integer_of_text env s\<close> is the integer the store reads the text \<open>s\<close> as when it puts it in
  an INTEGER column, and \<open>None\<close> when the store keeps \<open>s\<close> as a text. What varies from one
  request to the next is in \<open>ambient\<close>: the time, the text of the store's
  \<open>CURRENT_TIMESTAMP\<close>, and the salt the hash draws.
\<close>

record ambient =
  now :: nat
  current_timestamp :: string
  salt :: string

subsection \<open>The store\<close>

text \<open>
  A value as a statement holds it. The driver binds \<open>undefined\<close> and \<open>null\<close> as NULL, a
  boolean as the integer 1 or 0, a number as an integer and a string as a text.
\<close>

datatype sqlval = SNull | SInt int | SText string

fun bind_param :: "jsval \<Rightarrow> sqlval" where
  "bind_param Undefined = SNull"
| "bind_param Null = SNull"
| "bind_param (Bool b) = SInt (if b then 1 else 0)"
| "bind_param (Num n) = SInt (sint n)"
| "bind_param (Str s) = SText s"

text \<open>
  The affinity of a column decides what it stores. A TEXT column (and a comparison with
  one) turns an integer into its decimal text. An INTEGER column turns a text into an
  integer when the text is one, and keeps it as a text otherwise.
\<close>

fun text_affinity :: "sqlval \<Rightarrow> string option" where
  "text_affinity SNull = None"
| "text_affinity (SInt n) = Some (decimal n)"
| "text_affinity (SText s) = Some s"

fun integer_affinity :: "env \<Rightarrow> sqlval \<Rightarrow> sqlval" where
  "integer_affinity env SNull = SNull"
| "integer_affinity env (SInt n) = SInt n"
| "integer_affinity env (SText s) =
     (case integer_of_text env s of Some n \<Rightarrow> SInt n | None \<Rightarrow> SText s)"

text \<open>
  The rows follow the \<open>CREATE TABLE\<close> statements: a \<open>NOT NULL\<close> column has a plain type,
  a nullable TEXT column an option type, and \<open>categoryId\<close>, a nullable INTEGER column that
  no statement keeps from holding a text, the type of all values; keys are unbounded
  integers (the 64-bit range of the
  store is out of reach of a counter that grows by one). The \<open>_seq\<close> fields are the
  \<open>AUTOINCREMENT\<close> counters. \<open>trace\<close> lists the statements executed so far, oldest first;
  it is what tells a request that reached the store from one that did not.

  The store itself is taken to work: a statement fails only when it violates a constraint
  of the schema, so the \<open>err\<close> branches of the handlers are reached through \<open>NOT NULL\<close> and
  \<open>UNIQUE\<close> alone.
\<close>

record user_row =
  u_id :: int
  u_name :: string
  u_email :: string
  u_password :: string
  u_createdAt :: string

record recipe_row =
  r_id :: int
  r_title :: string
  r_description :: string
  r_ingredients :: string
  r_instructions :: string
  r_imageUrl :: "string option"
  r_categoryId :: sqlval
  r_userId :: int
  r_createdAt :: string

datatype stmt =
    InsertUser
  | SelectUserByEmail
  | SelectRecipesByUser
  | SelectRecipeById
  | InsertRecipe
  | UpdateRecipe

record db =
  users :: "user_row list"
  users_seq :: int
  recipes :: "recipe_row list"
  recipes_seq :: int
  trace :: "stmt list"

datatype sql_error = NotNullFailed string | UniqueFailed string

definition empty_db :: db where
  "empty_db = \<lparr>users = [], users_seq = 0, recipes = [], recipes_seq = 0, trace = []\<rparr>"

definition logged :: "stmt \<Rightarrow> db \<Rightarrow> db" where
  "logged s d = d\<lparr>trace := trace d @ [s]\<rparr>"

text \<open>
  \<open>INTEGER PRIMARY KEY AUTOINCREMENT\<close>: the new key is one more than the largest key the
  table has ever held.
\<close>

definition next_id :: "int \<Rightarrow> int list \<Rightarrow> int" where
  "next_id seq ids = fold max ids seq + 1"

text \<open>
  \<open>INSERT INTO users (name, email, password) VALUES (?, ?, ?)\<close>. The result is the error,
  or \<open>this.lastID\<close>.
\<close>

definition insert_user ::
  "sqlval \<Rightarrow> sqlval \<Rightarrow> sqlval \<Rightarrow> string \<Rightarrow> db \<Rightarrow> (sql_error + int) \<times> db" where
  "insert_user n e p ts d =
     (case text_affinity n of None \<Rightarrow> (Inl (NotNullFailed ''users.name''), logged InsertUser d)
      | Some n' \<Rightarrow>
     (case text_affinity e of None \<Rightarrow> (Inl (NotNullFailed ''users.email''), logged InsertUser d)
      | Some e' \<Rightarrow>
     (case text_affinity p of None \<Rightarrow> (Inl (NotNullFailed ''users.password''), logged InsertUser d)
      | Some p' \<Rightarrow>
        if e' \<in> set (map u_email (users d))
        then (Inl (UniqueFailed ''users.email''), logged InsertUser d)
        else
          (let i = next_id (users_seq d) (map u_id (users d));
               row = \<lparr>u_id = i, u_name = n', u_email = e', u_password = p', u_createdAt = ts\<rparr>
           in (Inr i, logged InsertUser (d\<lparr>users := users d @ [row], users_seq := i\<rparr>))))))"

text \<open>\<open>SELECT * FROM users WHERE email = ?\<close> through \<open>db.get\<close>: the first row, if any.\<close>

definition select_user_by_email :: "sqlval \<Rightarrow> db \<Rightarrow> user_row option \<times> db" where
  "select_user_by_email e d =
     (find (\<lambda>u. Some (u_email u) = text_affinity e) (users d), logged SelectUserByEmail d)"

text \<open>\<open>SELECT * FROM recipes WHERE userId = ?\<close> through \<open>db.all\<close>.\<close>

definition select_recipes_by_user :: "int \<Rightarrow> db \<Rightarrow> recipe_row list \<times> db" where
  "select_recipes_by_user uid d =
     (filter (\<lambda>r. r_userId r = uid) (recipes d), logged SelectRecipesByUser d)"

text \<open>\<open>SELECT * FROM recipes WHERE id = ? AND userId = ?\<close> through \<open>db.get\<close>.\<close>

definition select_recipe :: "int \<Rightarrow> int \<Rightarrow> db \<Rightarrow> recipe_row option \<times> db" where
  "select_recipe rid uid d =
     (find (\<lambda>r. r_id r = rid \<and> r_userId r = uid) (recipes d), logged SelectRecipeById d)"

text \<open>
  \<open>INSERT INTO recipes (title, description, ingredients, instructions, imageUrl,
  categoryId, userId) VALUES (?, ?, ?, ?, ?, ?, ?)\<close>. Foreign keys are declared but never
  switched on, so only the \<open>NOT NULL\<close> columns can make the statement fail.
\<close>

definition insert_recipe ::
  "env \<Rightarrow> sqlval \<Rightarrow> sqlval \<Rightarrow> sqlval \<Rightarrow> sqlval \<Rightarrow> sqlval \<Rightarrow> sqlval \<Rightarrow> int \<Rightarrow> string \<Rightarrow> db \<Rightarrow>
   (sql_error + int) \<times> db" where
  "insert_recipe env t de ing ins img cat uid ts d =
     (case text_affinity t of None \<Rightarrow> (Inl (NotNullFailed ''recipes.title''), logged InsertRecipe d)
      | Some t' \<Rightarrow>
     (case text_affinity de of
        None \<Rightarrow> (Inl (NotNullFailed ''recipes.description''), logged InsertRecipe d)
      | Some de' \<Rightarrow>
     (case text_affinity ing of
        None \<Rightarrow> (Inl (NotNullFailed ''recipes.ingredients''), logged InsertRecipe d)
      | Some ing' \<Rightarrow>
     (case text_affinity ins of
        None \<Rightarrow> (Inl (NotNullFailed ''recipes.instructions''), logged InsertRecipe d)
      | Some ins' \<Rightarrow>
         (let i = next_id (recipes_seq d) (map r_id (recipes d));
              row = \<lparr>r_id = i, r_title = t', r_description = de', r_ingredients = ing',
                     r_instructions = ins', r_imageUrl = text_affinity img,
                     r_categoryId = integer_affinity env cat,
                     r_userId = uid, r_createdAt = ts\<rparr>
          in (Inr i, logged InsertRecipe (d\<lparr>recipes := recipes d @ [row], recipes_seq := i\<rparr>)))))))"

text \<open>
  \<open>UPDATE recipes SET title = ?, description = ?, ingredients = ?, instructions = ?,
  categoryId = ?, imageUrl = ? WHERE id = ? AND userId = ?\<close>. The result is the error, or
  \<open>this.changes\<close>, the number of rows the \<open>WHERE\<close> clause selected. A \<open>NOT NULL\<close> column is
  checked when a row is written, so the statement fails only if it selects a row; a failed
  statement changes no row.
\<close>

definition update_recipe ::
  "env \<Rightarrow> sqlval \<Rightarrow> sqlval \<Rightarrow> sqlval \<Rightarrow> sqlval \<Rightarrow> sqlval \<Rightarrow> sqlval \<Rightarrow> int \<Rightarrow> int \<Rightarrow> db \<Rightarrow>
   (sql_error + nat) \<times> db" where
  "update_recipe env t de ing ins cat img rid uid d =
     (let sel = (\<lambda>r. r_id r = rid \<and> r_userId r = uid);
          n = length (filter sel (recipes d))
      in if n = 0 then (Inr 0, logged UpdateRecipe d)
         else
     (case text_affinity t of
        None \<Rightarrow> (Inl (NotNullFailed ''recipes.title''), logged UpdateRecipe d)
      | Some t' \<Rightarrow>
     (case text_affinity de of
        None \<Rightarrow> (Inl (NotNullFailed ''recipes.description''), logged UpdateRecipe d)
      | Some de' \<Rightarrow>
     (case text_affinity ing of
        None \<Rightarrow> (Inl (NotNullFailed ''recipes.ingredients''), logged UpdateRecipe d)
      | Some ing' \<Rightarrow>
     (case text_affinity ins of
        None \<Rightarrow> (Inl (NotNullFailed ''recipes.instructions''), logged UpdateRecipe d)
      | Some ins' \<Rightarrow>
         (Inr n, logged UpdateRecipe (d\<lparr>recipes :=
            map (\<lambda>r. if sel r
                      then r\<lparr>r_title := t', r_description := de', r_ingredients := ing',
                             r_instructions := ins',
                             r_categoryId := integer_affinity env cat,
                             r_imageUrl := text_affinity img\<rparr>
                      else r) (recipes d)\<rparr>)))))))"

text \<open>
  The text of the error the driver hands to the callback, and JavaScript's
  \<open>String.prototype.includes\<close>.
\<close>

fun message :: "sql_error \<Rightarrow> string" where
  "message (NotNullFailed c) = ''SQLITE_CONSTRAINT: NOT NULL constraint failed: '' @ c"
| "message (UniqueFailed c) = ''SQLITE_CONSTRAINT: UNIQUE constraint failed: '' @ c"

fun str_includes :: "string \<Rightarrow> string \<Rightarrow> bool" where
  "str_includes [] pat = (pat = [])"
| "str_includes (c # cs) pat = (take (length pat) (c # cs) = pat \<or> str_includes cs pat)"

text \<open>The row as \<open>db.get\<close> and \<open>db.all\<close> hand it to the callback.\<close>

definition recipe_json :: "recipe_row \<Rightarrow> json" where
  "recipe_json r = JObj [(''id'', JNum (r_id r)), (''title'', JStr (r_title r)),
     (''description'', JStr (r_description r)), (''ingredients'', JStr (r_ingredients r)),
     (''instructions'', JStr (r_instructions r)),
     (''imageUrl'', (case r_imageUrl r of None \<Rightarrow> JNull | Some s \<Rightarrow> JStr s)),
     (''categoryId'', (case r_categoryId r of
                         SNull \<Rightarrow> JNull | SInt c \<Rightarrow> JNum c | SText s \<Rightarrow> JStr s)),
     (''userId'', JNum (r_userId r)), (''createdAt'', JStr (r_createdAt r))]"

subsection \<open>Input validation\<close>

text \<open>
  A validation chain \<open>body(path).check().withMessage(msg)\<close> turns the field into a string
  (absent and \<open>null\<close> become the empty string, a boolean and a number what \<open>String\<close> makes of
  them), runs the check on it, and records one error
  for the field when the check fails. \<open>validationResult(req).array()\<close> is the errors of
  the chains of the route, in the order of the chains. An error carries the path of the
  field, the value that was rejected and the message. A string is a list of the characters
  the length check counts.
\<close>

fun toString :: "jsval \<Rightarrow> string" where
  "toString Undefined = []"
| "toString Null = []"
| "toString (Bool b) = (if b then ''true'' else ''false'')"
| "toString (Num n) = decimal (sint n)"
| "toString (Str s) = s"

datatype validator = NotEmpty | IsEmail | IsLength nat

fun passes :: "env \<Rightarrow> validator \<Rightarrow> string \<Rightarrow> bool" where
  "passes env NotEmpty s = (s \<noteq> [])"
| "passes env IsEmail s = isEmail env s"
| "passes env (IsLength m) s = (m \<le> length s)"

definition field_error :: "string \<Rightarrow> jsval \<Rightarrow> string \<Rightarrow> json" where
  "field_error path v msg =
     JObj [(''type'', JStr ''field''), (''value'', to_json v), (''msg'', JStr msg),
           (''path'', JStr path), (''location'', JStr ''body'')]"

definition body_chain :: "env \<Rightarrow> string \<Rightarrow> jsval \<Rightarrow> validator \<Rightarrow> string \<Rightarrow> json list" where
  "body_chain env path v c msg =
     (if passes env c (toString v) then [] else [field_error path v msg])"

definition err_json :: "string \<Rightarrow> json" where
  "err_json msg = JObj [(''error'', JStr msg)]"

subsection \<open>Tokens\<close>

definition generateToken :: "env \<Rightarrow> ambient \<Rightarrow> int \<Rightarrow> string" where
  "generateToken env amb userId = jwt_sign env userId (now amb)"

text \<open>JavaScript's \<open>s.replace(pat, rep)\<close> for a string pattern: the first occurrence only.\<close>

fun replace_first :: "string \<Rightarrow> string \<Rightarrow> string \<Rightarrow> string" where
  "replace_first pat rep [] = (if pat = [] then rep else [])"
| "replace_first pat rep (c # cs) =
     (if take (length pat) (c # cs) = pat then rep @ drop (length pat) (c # cs)
      else c # replace_first pat rep cs)"

text \<open>
  The middleware \<open>authenticateToken\<close>: \<open>handler\<close> is the rest of the route, which
  \<open>next()\<close> runs with \<open>req.userId\<close> set.
\<close>

definition authenticateToken ::
  "env \<Rightarrow> ambient \<Rightarrow> request \<Rightarrow> (int \<Rightarrow> db \<Rightarrow> response \<times> db) \<Rightarrow> db \<Rightarrow> response \<times> db" where
  "authenticateToken env amb req handler d =
     (case map_option (replace_first ''Bearer '' []) (authorization req) of
        None \<Rightarrow> (Response 401 (err_json ''Access denied. No token provided.''), d)
      | Some token \<Rightarrow>
          if token = [] then (Response 401 (err_json ''Access denied. No token provided.''), d)
          else (case jwt_verify env token (now amb) of
                  None \<Rightarrow> (Response 400 (err_json ''Invalid token.''), d)
                | Some uid \<Rightarrow> handler uid d))"

subsection \<open>The routes\<close>

text \<open>\<open>POST /signup\<close>\<close>

definition post_signup :: "env \<Rightarrow> ambient \<Rightarrow> request \<Rightarrow> db \<Rightarrow> response \<times> db" where
  "post_signup env amb req d =
     (let b = body req;
          errors = body_chain env ''name'' (name b) NotEmpty ''Name is required''
                 @ body_chain env ''email'' (email b) IsEmail ''Invalid email''
                 @ body_chain env ''password'' (password b) (IsLength 6)
                     ''Password must be at least 6 characters long''
      in if errors \<noteq> [] then (Response 400 (JObj [(''errors'', JArr errors)]), d)
         else
          (case password b of
             Str p \<Rightarrow>
               (let hashedPassword = bcrypt_hash env p (salt amb)
                in case insert_user (bind_param (name b)) (bind_param (email b))
                          (SText hashedPassword) (current_timestamp amb) d of
                     (Inl err, d') \<Rightarrow>
                       if str_includes (message err) ''UNIQUE constraint failed''
                       then (Response 400 (err_json ''Email already exists''), d')
                       else (Response 500 (err_json ''Failed to create user''), d')
                   | (Inr lastID, d') \<Rightarrow>
                       (Response 201
                          (JObj [(''id'', JNum lastID), (''name'', to_json (name b)),
                                 (''email'', to_json (email b)),
                                 (''token'', JStr (jwt_sign env lastID (now amb)))]), d'))
           | _ \<Rightarrow> (NoResponse, d)))"

text \<open>\<open>POST /login\<close>\<close>

definition post_login :: "env \<Rightarrow> ambient \<Rightarrow> request \<Rightarrow> db \<Rightarrow> response \<times> db" where
  "post_login env amb req d =
     (let b = body req;
          errors = body_chain env ''email'' (email b) IsEmail ''Invalid email''
                 @ body_chain env ''password'' (password b) NotEmpty ''Password is required''
      in if errors \<noteq> [] then (Response 400 (JObj [(''errors'', JArr errors)]), d)
         else
          (case select_user_by_email (bind_param (email b)) d of
             (None, d') \<Rightarrow> (Response 404 (err_json ''User not found''), d')
           | (Some user, d') \<Rightarrow>
               (case password b of
                  Str p \<Rightarrow>
                    if \<not> bcrypt_compare env p (u_password user)
                    then (Response 401 (err_json ''Invalid credentials''), d')
                    else (Response 200
                            (JObj [(''token'', JStr (generateToken env amb (u_id user)))]), d')
                | _ \<Rightarrow> (NoResponse, d'))))"

text \<open>\<open>GET /recipes\<close>\<close>

definition get_recipes :: "env \<Rightarrow> ambient \<Rightarrow> request \<Rightarrow> db \<Rightarrow> response \<times> db" where
  "get_recipes env amb req =
     authenticateToken env amb req (\<lambda>userId d.
       case select_recipes_by_user userId d of
         (rows, d') \<Rightarrow> (Response 200 (JArr (map recipe_json rows)), d'))"

text \<open>\<open>GET /recipes/:id\<close>\<close>

definition get_recipe_by_id :: "env \<Rightarrow> ambient \<Rightarrow> request \<Rightarrow> db \<Rightarrow> response \<times> db" where
  "get_recipe_by_id env amb req =
     authenticateToken env amb req (\<lambda>userId d.
       case select_recipe (params_id req) userId d of
         (None, d') \<Rightarrow> (Response 404 (err_json ''Recipe not found''), d')
       | (Some recipe, d') \<Rightarrow> (Response 200 (recipe_json recipe), d'))"

text \<open>\<open>POST /recipes\<close>\<close>

definition post_recipes :: "env \<Rightarrow> ambient \<Rightarrow> request \<Rightarrow> db \<Rightarrow> response \<times> db" where
  "post_recipes env amb req =
     authenticateToken env amb req (\<lambda>userId d.
       let b = body req;
           errors = body_chain env ''title'' (title b) NotEmpty ''Title is required''
                  @ body_chain env ''description'' (description b) NotEmpty
                      ''Description is required''
                  @ body_chain env ''ingredients'' (ingredients b) NotEmpty
                      ''Ingredients are required''
                  @ body_chain env ''instructions'' (instructions b) NotEmpty
                      ''Instructions are required''
       in if errors \<noteq> [] then (Response 400 (JObj [(''errors'', JArr errors)]), d)
          else
           (case insert_recipe env (bind_param (title b)) (bind_param (description b))
                   (bind_param (ingredients b)) (bind_param (instructions b))
                   (bind_param (imageUrl b)) (bind_param (categoryId b)) userId
                   (current_timestamp amb) d of
              (Inl err, d') \<Rightarrow> (Response 500 (err_json ''Failed to add recipe''), d')
            | (Inr lastID, d') \<Rightarrow>
                (Response 201
                   (JObj [(''id'', JNum lastID), (''title'', to_json (title b)),
                          (''description'', to_json (description b)),
                          (''ingredients'', to_json (ingredients b)),
                          (''instructions'', to_json (instructions b)),
                          (''imageUrl'', to_json (imageUrl b)),
                          (''categoryId'', to_json (categoryId b))]), d')))"

text \<open>\<open>PUT /recipes/:id\<close>\<close>

definition put_recipe_by_id :: "env \<Rightarrow> ambient \<Rightarrow> request \<Rightarrow> db \<Rightarrow> response \<times> db" where
  "put_recipe_by_id env amb req =
     authenticateToken env amb req (\<lambda>userId d.
       let b = body req
       in case update_recipe env (bind_param (title b)) (bind_param (description b))
                 (bind_param (ingredients b)) (bind_param (instructions b))
                 (bind_param (categoryId b)) (bind_param (imageUrl b))
                 (params_id req) userId d of
            (Inl err, d') \<Rightarrow> (Response 500 (err_json ''Failed to update recipe''), d')
          | (Inr changes, d') \<Rightarrow>
              if changes = 0
              then (Response 404 (err_json ''Recipe not found or unauthorized''), d')
              else (Response 200 (JObj [(''message'', JStr ''Recipe updated successfully'')]), d'))"

text \<open>The routes of the application that touch users and recipes.\<close>

datatype route =
    PostSignup
  | PostLogin
  | GetRecipes
  | GetRecipeById
  | PostRecipes
  | PutRecipeById

fun app :: "env \<Rightarrow> ambient \<Rightarrow> route \<Rightarrow> request \<Rightarrow> db \<Rightarrow> response \<times> db" where
  "app env amb PostSignup = post_signup env amb"
| "app env amb PostLogin = post_login env amb"
| "app env amb GetRecipes = get_recipes env amb"
| "app env amb GetRecipeById = get_recipe_by_id env amb"
| "app env amb PostRecipes = post_recipes env amb"
| "app env amb PutRecipeById = put_recipe_by_id env amb"


subsection \<open>Notions used in the statements\<close>

text \<open>
  A request made by the user \<open>uid\<close>: it carries a header whose token verifies, at the time
  of the request, to the payload id \<open>uid\<close>.
\<close>

definition authenticated_as :: "env \<Rightarrow> ambient \<Rightarrow> request \<Rightarrow> int \<Rightarrow> bool" where
  "authenticated_as env amb req uid =
     (case authorization req of
        None \<Rightarrow> False
      | Some h \<Rightarrow> replace_first ''Bearer '' [] h \<noteq> []
                 \<and> jwt_verify env (replace_first ''Bearer '' [] h) (now amb) = Some uid)"

text \<open>
  A small instance of the libraries, a clock, and a store holding two users with one recipe
  each, for the examples. The token of user \<open>n\<close> is the letter \<open>u\<close> written \<open>n\<close> times; a hash
  is the salt followed by the password reversed; a text is an integer when it is a row of
  digits.
\<close>

fun parse_digits :: "string \<Rightarrow> int \<Rightarrow> int option" where
  "parse_digits [] acc = Some acc"
| "parse_digits (c # cs) acc =
     (case map_of [(CHR ''0'', 0), (CHR ''1'', 1), (CHR ''2'', 2), (CHR ''3'', 3), (CHR ''4'', 4),
                   (CHR ''5'', 5), (CHR ''6'', 6), (CHR ''7'', 7), (CHR ''8'', 8), (CHR ''9'', 9)] c of
        None \<Rightarrow> None
      | Some k \<Rightarrow> parse_digits cs (10 * acc + k))"

definition demo_env :: env where
  "demo_env =
     \<lparr>jwt_sign = (\<lambda>uid t. replicate (nat uid) (CHR ''u'')),
      jwt_verify = (\<lambda>tok t. if tok \<noteq> [] \<and> tok = replicate (length tok) (CHR ''u'')
                             then Some (int (length tok)) else None),
      bcrypt_hash = (\<lambda>p s. s @ rev p),
      bcrypt_compare = (\<lambda>p h. drop 4 h = rev p),
      isEmail = (\<lambda>s. CHR ''@'' \<in> set s),
      integer_of_text = (\<lambda>s. if s = [] then None else parse_digits s 0)\<rparr>"

definition demo_amb :: ambient where
  "demo_amb = \<lparr>now = 1000, current_timestamp = ''2024-01-01 00:00:00'', salt = ''$2b$''\<rparr>"

definition no_body :: req_body where
  "no_body = \<lparr>name = Undefined, email = Undefined, password = Undefined, title = Undefined,
     description = Undefined, ingredients = Undefined, instructions = Undefined,
     categoryId = Undefined, imageUrl = Undefined\<rparr>"

definition demo_db :: db where
  "demo_db =
     \<lparr>users = [\<lparr>u_id = 1, u_name = ''A'', u_email = ''a@x.com'', u_password = ''$2b$1terces'',
                 u_createdAt = ''2023-12-31 10:00:00''\<rparr>,
               \<lparr>u_id = 2, u_name = ''B'', u_email = ''b@x.com'', u_password = ''$2b$2terces'',
                 u_createdAt = ''2023-12-31 11:00:00''\<rparr>],
      users_seq = 2,
      recipes = [\<lparr>r_id = 1, r_title = ''Soup'', r_description = ''hot'', r_ingredients = ''water'',
                   r_instructions = ''boil'', r_imageUrl = None, r_categoryId = SNull, r_userId = 1,
                   r_createdAt = ''2023-12-31 12:00:00''\<rparr>,
                 \<lparr>r_id = 2, r_title = ''Tea'', r_description = ''warm'', r_ingredients = ''leaves'',
                   r_instructions = ''steep'', r_imageUrl = None, r_categoryId = SInt 3, r_userId = 2,
                   r_createdAt = ''2023-12-31 13:00:00''\<rparr>],
      recipes_seq = 2,
      trace = []\<rparr>"

text \<open>What a TEXT column stores for a field of the body.\<close>

definition stored_text :: "jsval \<Rightarrow> string option" where
  "stored_text v = text_affinity (bind_param v)"

text \<open>
  The validation errors of a signup body, a login body and a recipe body, said field by
  field: one entry for each field that violates its constraint, in the order of the
  fields.
\<close>

definition login_errors :: "env \<Rightarrow> req_body \<Rightarrow> json list" where
  "login_errors env b =
     (if \<not> isEmail env (toString (email b))
      then [field_error ''email'' (email b) ''Invalid email''] else [])
   @ (if toString (password b) = []
      then [field_error ''password'' (password b) ''Password is required''] else [])"

definition signup_errors :: "env \<Rightarrow> req_body \<Rightarrow> json list" where
  "signup_errors env b =
     (if toString (name b) = [] then [field_error ''name'' (name b) ''Name is required'']
      else [])
   @ (if \<not> isEmail env (toString (email b))
      then [field_error ''email'' (email b) ''Invalid email''] else [])
   @ (if length (toString (password b)) < 6
      then [field_error ''password'' (password b)
              ''Password must be at least 6 characters long'']
      else [])"

definition recipe_errors :: "req_body \<Rightarrow> json list" where
  "recipe_errors b =
     (if toString (title b) = [] then [field_error ''title'' (title b) ''Title is required'']
      else [])
   @ (if toString (description b) = []
      then [field_error ''description'' (description b) ''Description is required''] else [])
   @ (if toString (ingredients b) = []
      then [field_error ''ingredients'' (ingredients b) ''Ingredients are required''] else [])
   @ (if toString (instructions b) = []
      then [field_error ''instructions'' (instructions b) ''Instructions are required'']
      else [])"


text \<open>
  The key constraints of the schema (\<open>PRIMARY KEY\<close> on both tables, \<open>UNIQUE\<close> on
  \<open>users.email\<close>), and a sequence of requests served one after the other.
\<close>

definition store_inv :: "db \<Rightarrow> bool" where
  "store_inv d \<longleftrightarrow> distinct (map r_id (recipes d)) \<and> distinct (map u_email (users d))
                    \<and> distinct (map u_id (users d))"

fun run :: "env \<Rightarrow> (ambient \<times> route \<times> request) list \<Rightarrow> db \<Rightarrow> db" where
  "run env [] d = d"
| "run env ((amb, r, req) # rest) d = run env rest (snd (app env amb r req d))"

section \<open>Properties\<close>

subsection \<open>Auxiliary facts\<close>

lemma digits_nonempty: "digits n \<noteq> []"
  by (subst digits.simps) simp

lemma decimal_nonempty: "decimal n \<noteq> []"
  by (simp add: decimal_def digits_nonempty)

lemma stored_text_simps [simp]:
  "stored_text Undefined = None" "stored_text Null = None"
  "stored_text (Bool b) = Some (decimal (if b then 1 else 0))"
  "stored_text (Num n) = Some (decimal (sint n))" "stored_text (Str s) = Some s"
  by (simp_all add: stored_text_def)

lemma stored_text_None_iff: "stored_text v = None \<longleftrightarrow> v \<in> {Undefined, Null}"
  by (cases v) simp_all

lemma toString_nonempty_stored: "toString v \<noteq> [] \<Longrightarrow> \<exists>t. stored_text v = Some t"
  by (cases v) simp_all

lemma logged_simps [simp]:
  "users (logged s d) = users d" "recipes (logged s d) = recipes d"
  "users_seq (logged s d) = users_seq d" "recipes_seq (logged s d) = recipes_seq d"
  "trace (logged s d) = trace d @ [s]"
  by (simp_all add: logged_def)

text \<open>Every statement the store executes leaves its mark on the trace, whatever its result.\<close>

lemma store_reached:
  "trace (snd (insert_user n e p ts d)) = trace d @ [InsertUser]"
  "trace (snd (select_user_by_email eo d)) = trace d @ [SelectUserByEmail]"
  "trace (snd (select_recipes_by_user uid d)) = trace d @ [SelectRecipesByUser]"
  "trace (snd (select_recipe rid uid d)) = trace d @ [SelectRecipeById]"
  "trace (snd (insert_recipe env t de ing ins img cat uid ts d)) = trace d @ [InsertRecipe]"
  "trace (snd (update_recipe env t de ing ins cat img rid uid d)) = trace d @ [UpdateRecipe]"
  by (simp_all add: insert_user_def select_user_by_email_def select_recipes_by_user_def
        select_recipe_def insert_recipe_def update_recipe_def Let_def logged_def
        split: option.splits)

lemma fold_max_lower: "(s::int) \<le> fold max xs s"
  by (induction xs arbitrary: s) (auto intro: order_trans [OF max.cobounded2])

lemma fold_max_upper: "x \<in> set xs \<Longrightarrow> (x::int) \<le> fold max xs s"
proof (induction xs arbitrary: s)
  case Nil
  then show ?case by simp
next
  case (Cons y ys)
  show ?case
  proof (cases "x = y")
    case True
    have "y \<le> max y s" by simp
    also have "\<dots> \<le> fold max ys (max y s)" by (rule fold_max_lower)
    finally show ?thesis using True by simp
  next
    case False
    with Cons show ?thesis by simp
  qed
qed

lemma next_id_fresh: "next_id s ids \<notin> set ids"
proof
  assume "next_id s ids \<in> set ids"
  then have "next_id s ids \<le> fold max ids s" by (rule fold_max_upper)
  then show False by (simp add: next_id_def)
qed

text \<open>
  Removing \<open>Bearer\<close> and the space after it leaves nothing exactly when the header value is
  empty or is that prefix alone.
\<close>

lemma replace_first_empty_iff:
  assumes "pat \<noteq> []"
  shows "replace_first pat [] h = [] \<longleftrightarrow> h = [] \<or> h = pat"
proof (cases h)
  case Nil
  with assms show ?thesis by simp
next
  case (Cons c cs)
  show ?thesis
  proof (cases "take (length pat) h = pat")
    case True
    have "replace_first pat [] h = drop (length pat) h"
      using True Cons by (simp only: replace_first.simps append_Nil simp_thms if_True)
    moreover have "drop (length pat) h = [] \<longleftrightarrow> h = pat"
      using True by (metis append_Nil2 append_take_drop_id drop_all order_refl)
    ultimately show ?thesis using Cons by simp
  next
    case False
    have "replace_first pat [] h = c # replace_first pat [] cs"
      using False Cons by (simp only: replace_first.simps simp_thms if_False)
    moreover have "h \<noteq> pat" using False by auto
    ultimately show ?thesis using Cons by simp
  qed
qed

text \<open>The three outcomes of the middleware.\<close>

lemma authenticateToken_pass:
  "authenticated_as env amb req uid \<Longrightarrow> authenticateToken env amb req handler d = handler uid d"
  by (auto simp: authenticated_as_def authenticateToken_def split: option.splits)

lemma authenticateToken_missing:
  assumes "authorization req \<in> {None, Some [], Some ''Bearer ''}"
  shows "authenticateToken env amb req handler d
           = (Response 401 (err_json ''Access denied. No token provided.''), d)"
proof (cases "authorization req")
  case None
  then show ?thesis by (simp add: authenticateToken_def)
next
  case (Some h)
  with assms have "h = [] \<or> h = ''Bearer ''" by auto
  then have "replace_first ''Bearer '' [] h = []"
    by (simp add: replace_first_empty_iff)
  with Some show ?thesis by (simp add: authenticateToken_def)
qed

lemma authenticateToken_invalid:
  assumes "authorization req = Some h"
      and "replace_first ''Bearer '' [] h \<noteq> []"
      and "jwt_verify env (replace_first ''Bearer '' [] h) (now amb) = None"
  shows "authenticateToken env amb req handler d = (Response 400 (err_json ''Invalid token.''), d)"
  using assms by (simp add: authenticateToken_def)

lemma app_recipe_route:
  assumes "r \<in> {GetRecipes, GetRecipeById, PostRecipes, PutRecipeById}"
  shows "\<exists>handler. app env amb r req d = authenticateToken env amb req handler d"
  using assms
  by (auto simp: get_recipes_def get_recipe_by_id_def post_recipes_def put_recipe_by_id_def)

subsection \<open>The authorization gate\<close>

text \<open>
  Claim C2. Listing, reading, creating and updating recipes all pass through the gate.
  When the \<open>Authorization\<close> header is absent, empty, or only the \<open>Bearer\<close> prefix, so that no
  token is left, the response is 401 with the missing-credential message. When a token is
  left and its verification fails, the response is 400 with the invalid-credential
  message. In both cases the store comes back as it was, trace included: no statement was
  executed.
\<close>

theorem authorization_gate:
  assumes "r \<in> {GetRecipes, GetRecipeById, PostRecipes, PutRecipeById}"
  shows "(authorization req \<in> {None, Some [], Some ''Bearer ''} \<longrightarrow>
            app env amb r req d
              = (Response 401 (err_json ''Access denied. No token provided.''), d))
       \<and> (\<forall>h. authorization req = Some h
               \<and> replace_first ''Bearer '' [] h \<noteq> []
               \<and> jwt_verify env (replace_first ''Bearer '' [] h) (now amb) = None \<longrightarrow>
            app env amb r req d = (Response 400 (err_json ''Invalid token.''), d))"
proof -
  from app_recipe_route [OF assms] obtain handler
    where "app env amb r req d = authenticateToken env amb req handler d" by blast
  then show ?thesis
    by (auto simp del: app.simps simp: authenticateToken_missing authenticateToken_invalid)
qed

text \<open>
  Claim C2, at two requests: reading a recipe without a header, and updating one with a
  token that does not verify.
\<close>

theorem authorization_gate_witness:
  "app demo_env demo_amb GetRecipeById
      \<lparr>authorization = None, body = no_body, params_id = 1\<rparr> demo_db
     = (Response 401 (err_json ''Access denied. No token provided.''), demo_db)
   \<and> app demo_env demo_amb PutRecipeById
      \<lparr>authorization = Some ''Bearer forged'', body = no_body, params_id = 1\<rparr> demo_db
     = (Response 400 (err_json ''Invalid token.''), demo_db)"
  using authorization_gate [of GetRecipeById
          "\<lparr>authorization = None, body = no_body, params_id = 1\<rparr>" demo_env demo_amb demo_db]
        authorization_gate [of PutRecipeById
          "\<lparr>authorization = Some ''Bearer forged'', body = no_body, params_id = 1\<rparr>"
          demo_env demo_amb demo_db]
  by (simp add: demo_env_def)

subsection \<open>Owner scoping\<close>

lemma distinct_map_eq:
  assumes "distinct (map f xs)" "x \<in> set xs" "y \<in> set xs" "f x = f y"
  shows "x = y"
  using assms by (meson distinct_map inj_on_def)

lemma no_row_for_other_user:
  assumes "distinct (map r_id (recipes d))" "r \<in> set (recipes d)" "r_userId r \<noteq> uid"
  shows "\<forall>x \<in> set (recipes d). \<not> (r_id x = r_id r \<and> r_userId x = uid)"
  using assms distinct_map_eq [of r_id "recipes d"] by blast

lemma get_recipe_no_row:
  assumes "authenticated_as env amb req uid"
      and "\<forall>x \<in> set (recipes d). \<not> (r_id x = params_id req \<and> r_userId x = uid)"
  shows "get_recipe_by_id env amb req d
           = (Response 404 (err_json ''Recipe not found''), logged SelectRecipeById d)"
proof -
  have "find (\<lambda>x. r_id x = params_id req \<and> r_userId x = uid) (recipes d) = None"
    using assms(2) by (simp add: find_None_iff)
  then show ?thesis
    by (simp add: get_recipe_by_id_def authenticateToken_pass [OF assms(1)] select_recipe_def)
qed

lemma put_recipe_no_row:
  assumes "authenticated_as env amb req uid"
      and "\<forall>x \<in> set (recipes d). \<not> (r_id x = params_id req \<and> r_userId x = uid)"
  shows "put_recipe_by_id env amb req d
           = (Response 404 (err_json ''Recipe not found or unauthorized''), logged UpdateRecipe d)"
proof -
  have "filter (\<lambda>x. r_id x = params_id req \<and> r_userId x = uid) (recipes d) = []"
    using assms(2) by (simp add: filter_empty_conv)
  then show ?thesis
    by (simp add: put_recipe_by_id_def authenticateToken_pass [OF assms(1)] update_recipe_def)
qed

text \<open>
  Claim C1. Let the ids of the recipes be distinct, as the primary key makes them, and let
  \<open>r\<close> be a recipe of user \<open>B\<close>. A request of another user \<open>A\<close> for the id of \<open>r\<close> gets the 404
  answer from \<open>GET /recipes/:id\<close> and from \<open>PUT /recipes/:id\<close>, the store executes the one
  statement and no row changes. A request of \<open>A\<close> for an id that no recipe has gets the same
  response and leaves the same store, so \<open>A\<close> cannot tell the two apart.
\<close>

theorem owner_confidentiality:
  assumes "distinct (map r_id (recipes d))"
      and "r \<in> set (recipes d)"
      and "r_userId r = B"
      and "A \<noteq> B"
      and "authenticated_as env amb req A"
      and "params_id req = r_id r"
  shows "get_recipe_by_id env amb req d
           = (Response 404 (err_json ''Recipe not found''), logged SelectRecipeById d)
       \<and> put_recipe_by_id env amb req d
           = (Response 404 (err_json ''Recipe not found or unauthorized''), logged UpdateRecipe d)
       \<and> (\<forall>req'. authenticated_as env amb req' A
               \<and> params_id req' \<notin> set (map r_id (recipes d)) \<longrightarrow>
             get_recipe_by_id env amb req' d = get_recipe_by_id env amb req d
           \<and> put_recipe_by_id env amb req' d = put_recipe_by_id env amb req d)"
proof -
  have none: "\<forall>x \<in> set (recipes d). \<not> (r_id x = params_id req \<and> r_userId x = A)"
    using no_row_for_other_user [of d r A] assms by simp
  have absent: "\<forall>x \<in> set (recipes d). \<not> (r_id x = params_id req' \<and> r_userId x = A)"
    if "params_id req' \<notin> set (map r_id (recipes d))" for req'
    using that by (force simp: image_iff)
  show ?thesis
    using get_recipe_no_row [OF assms(5) none] put_recipe_no_row [OF assms(5) none]
          get_recipe_no_row [OF _ absent] put_recipe_no_row [OF _ absent]
    by simp
qed

text \<open>
  Claim C1, at the example store: user 1 asks for recipe 2, which user 2 owns, and for the
  id 999999, which no recipe has.
\<close>

theorem owner_confidentiality_witness:
  "get_recipe_by_id demo_env demo_amb
      \<lparr>authorization = Some ''Bearer u'', body = no_body, params_id = 2\<rparr> demo_db
     = (Response 404 (err_json ''Recipe not found''), logged SelectRecipeById demo_db)
   \<and> put_recipe_by_id demo_env demo_amb
      \<lparr>authorization = Some ''Bearer u'', body = no_body, params_id = 2\<rparr> demo_db
     = (Response 404 (err_json ''Recipe not found or unauthorized''), logged UpdateRecipe demo_db)
   \<and> get_recipe_by_id demo_env demo_amb
      \<lparr>authorization = Some ''Bearer u'', body = no_body, params_id = 999999\<rparr> demo_db
     = get_recipe_by_id demo_env demo_amb
      \<lparr>authorization = Some ''Bearer u'', body = no_body, params_id = 2\<rparr> demo_db
   \<and> put_recipe_by_id demo_env demo_amb
      \<lparr>authorization = Some ''Bearer u'', body = no_body, params_id = 999999\<rparr> demo_db
     = put_recipe_by_id demo_env demo_amb
      \<lparr>authorization = Some ''Bearer u'', body = no_body, params_id = 2\<rparr> demo_db"
proof -
  have auth: "authenticated_as demo_env demo_amb
      \<lparr>authorization = Some ''Bearer u'', body = no_body, params_id = i\<rparr> 1" for i
    by (simp add: authenticated_as_def demo_env_def)
  have "distinct (map r_id (recipes demo_db))"
    and "recipes demo_db ! 1 \<in> set (recipes demo_db)"
    and "r_userId (recipes demo_db ! 1) = 2"
    and "r_id (recipes demo_db ! 1) = 2"
    and "999999 \<notin> set (map r_id (recipes demo_db))"
    by (simp_all add: demo_db_def)
  with owner_confidentiality [of demo_db "recipes demo_db ! 1" 2 1 demo_env demo_amb
          "\<lparr>authorization = Some ''Bearer u'', body = no_body, params_id = 2\<rparr>"] auth
  show ?thesis by simp
qed

subsection \<open>Updating a recipe\<close>

text \<open>
  Claim C3 says that an update which selects a row always overwrites it and answers 200.
  At the example store, user 2 updates the own recipe 2 with a body that has no fields:
  the answer is 500 and the store keeps its rows.
\<close>

theorem put_recipe_counterexample:
  "authenticated_as demo_env demo_amb
      \<lparr>authorization = Some ''Bearer uu'', body = no_body, params_id = 2\<rparr> 2
   \<and> map r_id (recipes demo_db) = [1, 2]
   \<and> map r_userId (recipes demo_db) = [1, 2]
   \<and> put_recipe_by_id demo_env demo_amb
      \<lparr>authorization = Some ''Bearer uu'', body = no_body, params_id = 2\<rparr> demo_db
     = (Response 500 (err_json ''Failed to update recipe''), logged UpdateRecipe demo_db)"
  by (simp add: authenticated_as_def demo_env_def demo_db_def put_recipe_by_id_def
        authenticateToken_def update_recipe_def no_body_def)

lemma put_recipe_rows:
  assumes "authenticated_as env amb req uid"
      and "\<exists>x \<in> set (recipes d). r_id x = params_id req \<and> r_userId x = uid"
      and "stored_text (title (body req)) = Some t"
      and "stored_text (description (body req)) = Some de"
      and "stored_text (ingredients (body req)) = Some ing"
      and "stored_text (instructions (body req)) = Some ins"
  shows "put_recipe_by_id env amb req d
           = (Response 200 (JObj [(''message'', JStr ''Recipe updated successfully'')]),
              logged UpdateRecipe (d\<lparr>recipes :=
                map (\<lambda>x. if r_id x = params_id req \<and> r_userId x = uid
                          then \<lparr>r_id = r_id x, r_title = t, r_description = de,
                                 r_ingredients = ing, r_instructions = ins,
                                 r_imageUrl = stored_text (imageUrl (body req)),
                                 r_categoryId =
                                   integer_affinity env (bind_param (categoryId (body req))),
                                 r_userId = r_userId x, r_createdAt = r_createdAt x\<rparr>
                          else x) (recipes d)\<rparr>))"
proof -
  have sel: "filter (\<lambda>x. r_id x = params_id req \<and> r_userId x = uid) (recipes d) \<noteq> []"
    using assms(2) by (simp add: filter_empty_conv)
  have upd: "x\<lparr>r_title := t, r_description := de, r_ingredients := ing, r_instructions := ins,
                r_categoryId := c, r_imageUrl := i\<rparr>
             = \<lparr>r_id = r_id x, r_title = t, r_description = de, r_ingredients = ing,
                r_instructions = ins, r_imageUrl = i, r_categoryId = c,
                r_userId = r_userId x, r_createdAt = r_createdAt x\<rparr>" for x c i
    by (cases x) simp
  show ?thesis
    using sel assms(3-6)
    by (simp add: put_recipe_by_id_def authenticateToken_pass [OF assms(1)] update_recipe_def
          Let_def upd stored_text_def cong del: if_weak_cong)
qed

text \<open>
  Claim C3, amended. For a request of user \<open>uid\<close>: when no recipe has both the id of the
  request and the owner \<open>uid\<close>, the answer is 404 with the message
  \<open>Recipe not found or unauthorized\<close> and no row changes. When some recipe has, and the body
  gives title, description, ingredients and instructions as values that are not \<open>null\<close>
  (empty strings included: nothing checks them), the answer is 200 with the confirmation
  message, and every selected row takes the six fields of the body as its columns store
  them, an absent or \<open>null\<close> image URL or category becoming NULL, and keeps its id, owner
  and creation time; the other rows stay.
\<close>

theorem put_recipe_contract:
  assumes "authenticated_as env amb req uid"
  shows "((\<forall>x \<in> set (recipes d). \<not> (r_id x = params_id req \<and> r_userId x = uid)) \<longrightarrow>
            put_recipe_by_id env amb req d
              = (Response 404 (err_json ''Recipe not found or unauthorized''),
                 logged UpdateRecipe d))
       \<and> ((\<exists>x \<in> set (recipes d). r_id x = params_id req \<and> r_userId x = uid)
            \<and> stored_text (title (body req)) = Some t
            \<and> stored_text (description (body req)) = Some de
            \<and> stored_text (ingredients (body req)) = Some ing
            \<and> stored_text (instructions (body req)) = Some ins \<longrightarrow>
            put_recipe_by_id env amb req d
              = (Response 200 (JObj [(''message'', JStr ''Recipe updated successfully'')]),
                 logged UpdateRecipe (d\<lparr>recipes :=
                   map (\<lambda>x. if r_id x = params_id req \<and> r_userId x = uid
                             then \<lparr>r_id = r_id x, r_title = t, r_description = de,
                                    r_ingredients = ing, r_instructions = ins,
                                    r_imageUrl = stored_text (imageUrl (body req)),
                                    r_categoryId =
                                      integer_affinity env (bind_param (categoryId (body req))),
                                    r_userId = r_userId x, r_createdAt = r_createdAt x\<rparr>
                             else x) (recipes d)\<rparr>)))"
  using put_recipe_no_row [OF assms] put_recipe_rows [OF assms] by blast

text \<open>
  Claim C3, amended, at the example store: user 2 updates the id 999999, then the own
  recipe 2 with three empty strings.
\<close>

theorem put_recipe_contract_witness:
  "put_recipe_by_id demo_env demo_amb
      \<lparr>authorization = Some ''Bearer uu'', body = no_body, params_id = 999999\<rparr> demo_db
     = (Response 404 (err_json ''Recipe not found or unauthorized''), logged UpdateRecipe demo_db)
   \<and> put_recipe_by_id demo_env demo_amb
      \<lparr>authorization = Some ''Bearer uu'',
        body = no_body\<lparr>title := Str ''Chai'', description := Str [], ingredients := Str [],
                       instructions := Str [], imageUrl := Str ''/uploads/1.png''\<rparr>,
        params_id = 2\<rparr> demo_db
     = (Response 200 (JObj [(''message'', JStr ''Recipe updated successfully'')]),
        logged UpdateRecipe (demo_db\<lparr>recipes :=
          [recipes demo_db ! 0,
           \<lparr>r_id = 2, r_title = ''Chai'', r_description = [], r_ingredients = [],
             r_instructions = [], r_imageUrl = Some ''/uploads/1.png'', r_categoryId = SNull,
             r_userId = 2, r_createdAt = ''2023-12-31 13:00:00''\<rparr>]\<rparr>))"
proof -
  have auth: "authenticated_as demo_env demo_amb
      \<lparr>authorization = Some ''Bearer uu'', body = b, params_id = i\<rparr> 2" for b i
    by (simp add: authenticated_as_def demo_env_def)
  show ?thesis
    using put_recipe_contract [OF auth, of demo_db no_body 999999]
          put_recipe_contract [OF auth, of demo_db
            "no_body\<lparr>title := Str ''Chai'', description := Str [], ingredients := Str [],
                       instructions := Str [], imageUrl := Str ''/uploads/1.png''\<rparr>" 2
            "''Chai''" "[]" "[]" "[]"]
    by (simp add: demo_db_def no_body_def)
qed

text \<open>
  Claim C10. A request of user \<open>uid\<close> selects a recipe of \<open>uid\<close>, and its body leaves out, or
  gives as \<open>null\<close>, one of title, description, ingredients and instructions. Then the
  statement fails on the \<open>NOT NULL\<close> column, the answer is 500 with the message
  \<open>Failed to update recipe\<close> and not a list of validation errors, and the recipes are as
  they were.
\<close>

theorem put_missing_required_field:
  assumes "authenticated_as env amb req uid"
      and "\<exists>x \<in> set (recipes d). r_id x = params_id req \<and> r_userId x = uid"
      and "title (body req) \<in> {Undefined, Null} \<or> description (body req) \<in> {Undefined, Null}
           \<or> ingredients (body req) \<in> {Undefined, Null}
           \<or> instructions (body req) \<in> {Undefined, Null}"
  shows "put_recipe_by_id env amb req d
           = (Response 500 (err_json ''Failed to update recipe''), logged UpdateRecipe d)
       \<and> recipes (snd (put_recipe_by_id env amb req d)) = recipes d"
proof -
  have sel: "filter (\<lambda>x. r_id x = params_id req \<and> r_userId x = uid) (recipes d) \<noteq> []"
    using assms(2) by (simp add: filter_empty_conv)
  have "text_affinity (bind_param (title (body req))) = None
        \<or> text_affinity (bind_param (description (body req))) = None
        \<or> text_affinity (bind_param (ingredients (body req))) = None
        \<or> text_affinity (bind_param (instructions (body req))) = None"
    using assms(3) by auto
  then have "put_recipe_by_id env amb req d
           = (Response 500 (err_json ''Failed to update recipe''), logged UpdateRecipe d)"
    using sel
    by (auto simp: put_recipe_by_id_def authenticateToken_pass [OF assms(1)] update_recipe_def
          Let_def split: option.splits)
  then show ?thesis by (simp add: logged_def)
qed

text \<open>
  Claim C10, at the example store: user 1 updates the own recipe 1 with \<open>null\<close> ingredients
  and no instructions.
\<close>

theorem put_missing_required_field_witness:
  "put_recipe_by_id demo_env demo_amb
      \<lparr>authorization = Some ''Bearer u'',
        body = no_body\<lparr>title := Str ''Broth'', description := Str ''clear'',
                       ingredients := Null\<rparr>,
        params_id = 1\<rparr> demo_db
     = (Response 500 (err_json ''Failed to update recipe''), logged UpdateRecipe demo_db)
   \<and> recipes (snd (put_recipe_by_id demo_env demo_amb
      \<lparr>authorization = Some ''Bearer u'',
        body = no_body\<lparr>title := Str ''Broth'', description := Str ''clear'',
                       ingredients := Null\<rparr>,
        params_id = 1\<rparr> demo_db)) = recipes demo_db"
proof -
  have auth: "authenticated_as demo_env demo_amb
      \<lparr>authorization = Some ''Bearer u'', body = b, params_id = i\<rparr> 1" for b i
    by (simp add: authenticated_as_def demo_env_def)
  have row: "\<exists>x \<in> set (recipes demo_db). r_id x = 1 \<and> r_userId x = 1"
    by (simp add: demo_db_def)
  show ?thesis
    using put_missing_required_field [OF auth, of demo_db
            "no_body\<lparr>title := Str ''Broth'', description := Str ''clear'',
                       ingredients := Null\<rparr>" 1] row
    by (simp add: no_body_def)
qed

subsection \<open>Login\<close>

lemma find_unique:
  assumes "distinct (map f xs)" "x \<in> set xs"
  shows "find (\<lambda>y. f y = f x) xs = Some x"
  using assms
proof (induction xs)
  case Nil
  then show ?case by simp
next
  case (Cons a as)
  then show ?case by (cases "f a = f x") (auto simp: image_iff)
qed

text \<open>
  Claim C4 says that a login with an e-mail address no user has is answered with the
  not-found error. At the example store, a login with such an address and the empty
  password is answered with 400 and the validation error of the password; the store is
  not consulted.
\<close>

theorem login_counterexample:
  "''nobody@x.com'' \<notin> set (map u_email (users demo_db))
   \<and> post_login demo_env demo_amb
      \<lparr>authorization = None,
        body = no_body\<lparr>email := Str ''nobody@x.com'', password := Str []\<rparr>,
        params_id = 0\<rparr> demo_db
     = (Response 400
          (JObj [(''errors'',
                  JArr [field_error ''password'' (Str []) ''Password is required''])]),
        demo_db)"
  by (simp add: demo_db_def demo_env_def post_login_def body_chain_def no_body_def)

lemma login_chains:
  "body_chain env ''email'' (email b) IsEmail ''Invalid email''
   @ body_chain env ''password'' (password b) NotEmpty ''Password is required''
   = login_errors env b"
  by (simp add: body_chain_def login_errors_def)

lemma login_errors_empty:
  "login_errors env b = [] \<longleftrightarrow> isEmail env (toString (email b)) \<and> toString (password b) \<noteq> []"
  by (auto simp: login_errors_def)

lemma login_invalid:
  assumes "login_errors env (body req) \<noteq> []"
  shows "post_login env amb req d
           = (Response 400 (JObj [(''errors'', JArr (login_errors env (body req)))]), d)"
  using assms by (simp add: post_login_def Let_def login_chains)

lemma login_unknown:
  assumes "login_errors env (body req) = []"
      and "\<forall>u \<in> set (users d). Some (u_email u) \<noteq> stored_text (email (body req))"
  shows "post_login env amb req d
           = (Response 404 (err_json ''User not found''), logged SelectUserByEmail d)"
proof -
  have "find (\<lambda>u. Some (u_email u) = stored_text (email (body req))) (users d) = None"
    using assms(2) by (simp add: find_None_iff)
  then show ?thesis
    using assms(1)
    by (simp add: post_login_def Let_def login_chains select_user_by_email_def stored_text_def)
qed

lemma login_known:
  assumes "login_errors env (body req) = []"
      and "distinct (map u_email (users d))"
      and "u \<in> set (users d)" "Some (u_email u) = stored_text (email (body req))"
      and "password (body req) = Str p"
  shows "post_login env amb req d
           = (if bcrypt_compare env p (u_password u)
              then Response 200 (JObj [(''token'', JStr (jwt_sign env (u_id u) (now amb)))])
              else Response 401 (err_json ''Invalid credentials''),
              logged SelectUserByEmail d)"
proof -
  have "find (\<lambda>y. u_email y = u_email u) (users d) = Some u"
    by (rule find_unique [OF assms(2,3)])
  then have "find (\<lambda>y. Some (u_email y) = stored_text (email (body req))) (users d) = Some u"
    by (simp add: assms(4) [symmetric])
  then show ?thesis
    using assms(1,5)
    by (simp add: post_login_def Let_def login_chains select_user_by_email_def stored_text_def
          generateToken_def)
qed

text \<open>
  A password that is a number or a boolean passes the check for emptiness; when a user has
  the address, the comparison then throws and the request gets no answer.
\<close>

lemma login_not_a_string:
  assumes "login_errors env (body req) = []"
      and "distinct (map u_email (users d))"
      and "u \<in> set (users d)" "Some (u_email u) = stored_text (email (body req))"
      and "\<forall>p. password (body req) \<noteq> Str p"
  shows "post_login env amb req d = (NoResponse, logged SelectUserByEmail d)"
proof -
  have "find (\<lambda>y. u_email y = u_email u) (users d) = Some u"
    by (rule find_unique [OF assms(2,3)])
  then have "find (\<lambda>y. Some (u_email y) = stored_text (email (body req))) (users d) = Some u"
    by (simp add: assms(4) [symmetric])
  then show ?thesis
    using assms(1,5)
    by (cases "password (body req)")
       (simp_all add: post_login_def Let_def login_chains select_user_by_email_def
          stored_text_def)
qed

text \<open>
  Claim C4, amended. A login whose e-mail address fails the syntax check or whose password
  is empty is answered with 400 and the validation errors, and the store is not consulted.
  For a login that passes both checks, the stored addresses being distinct, as the
  \<open>UNIQUE\<close> constraint makes them: when no user has the address, the answer is 404 with
  \<open>User not found\<close>; when a user has it and the password is a string, the answer is 401
  with \<open>Invalid credentials\<close> if the password does not compare equal to the stored hash,
  and otherwise 200 with a body whose only property is a token signed now for the id of
  that user.
\<close>

theorem login_contract:
  assumes "distinct (map u_email (users d))"
  shows "(\<not> isEmail env (toString (email (body req))) \<or> toString (password (body req)) = [] \<longrightarrow>
            post_login env amb req d
              = (Response 400 (JObj [(''errors'', JArr (login_errors env (body req)))]), d))
       \<and> (isEmail env (toString (email (body req))) \<and> toString (password (body req)) \<noteq> [] \<longrightarrow>
            ((\<forall>u \<in> set (users d). Some (u_email u) \<noteq> stored_text (email (body req))) \<longrightarrow>
               post_login env amb req d
                 = (Response 404 (err_json ''User not found''), logged SelectUserByEmail d))
          \<and> (\<forall>u \<in> set (users d). \<forall>p.
               Some (u_email u) = stored_text (email (body req)) \<and> password (body req) = Str p \<longrightarrow>
               post_login env amb req d
                 = (if bcrypt_compare env p (u_password u)
                    then Response 200
                           (JObj [(''token'', JStr (jwt_sign env (u_id u) (now amb)))])
                    else Response 401 (err_json ''Invalid credentials''),
                    logged SelectUserByEmail d)))"
proof (intro conjI impI ballI allI)
  assume "\<not> isEmail env (toString (email (body req))) \<or> toString (password (body req)) = []"
  then have "login_errors env (body req) \<noteq> []"
    by (auto simp: login_errors_empty)
  then show "post_login env amb req d
      = (Response 400 (JObj [(''errors'', JArr (login_errors env (body req)))]), d)"
    by (rule login_invalid)
next
  assume "isEmail env (toString (email (body req))) \<and> toString (password (body req)) \<noteq> []"
    and "\<forall>u \<in> set (users d). Some (u_email u) \<noteq> stored_text (email (body req))"
  then show "post_login env amb req d
      = (Response 404 (err_json ''User not found''), logged SelectUserByEmail d)"
    by (intro login_unknown) (simp_all add: login_errors_empty)
next
  fix u p
  assume "isEmail env (toString (email (body req))) \<and> toString (password (body req)) \<noteq> []"
    and "u \<in> set (users d)"
    and "Some (u_email u) = stored_text (email (body req)) \<and> password (body req) = Str p"
  then show "post_login env amb req d
      = (if bcrypt_compare env p (u_password u)
         then Response 200 (JObj [(''token'', JStr (jwt_sign env (u_id u) (now amb)))])
         else Response 401 (err_json ''Invalid credentials''),
         logged SelectUserByEmail d)"
    using assms by (intro login_known) (simp_all add: login_errors_empty)
qed

text \<open>
  Claim C4, amended, at the example store: an address that is none, an unknown address,
  a wrong password, and the right one.
\<close>

theorem login_contract_witness:
  "post_login demo_env demo_amb
      \<lparr>authorization = None,
        body = no_body\<lparr>email := Str ''nobody'', password := Str ''secret1''\<rparr>,
        params_id = 0\<rparr> demo_db
     = (Response 400
          (JObj [(''errors'', JArr [field_error ''email'' (Str ''nobody'') ''Invalid email''])]),
        demo_db)
   \<and> post_login demo_env demo_amb
      \<lparr>authorization = None,
        body = no_body\<lparr>email := Str ''nobody@x.com'', password := Str ''secret1''\<rparr>,
        params_id = 0\<rparr> demo_db
     = (Response 404 (err_json ''User not found''), logged SelectUserByEmail demo_db)
   \<and> post_login demo_env demo_amb
      \<lparr>authorization = None,
        body = no_body\<lparr>email := Str ''a@x.com'', password := Str ''secret2''\<rparr>,
        params_id = 0\<rparr> demo_db
     = (Response 401 (err_json ''Invalid credentials''), logged SelectUserByEmail demo_db)
   \<and> post_login demo_env demo_amb
      \<lparr>authorization = None,
        body = no_body\<lparr>email := Str ''a@x.com'', password := Str ''secret1''\<rparr>,
        params_id = 0\<rparr> demo_db
     = (Response 200 (JObj [(''token'', JStr ''u'')]), logged SelectUserByEmail demo_db)"
proof -
  have uniq: "distinct (map u_email (users demo_db))"
    by (simp add: demo_db_def)
  show ?thesis
    using login_contract [OF uniq, of demo_env "\<lparr>authorization = None,
            body = no_body\<lparr>email := Str ''nobody'', password := Str ''secret1''\<rparr>,
            params_id = 0\<rparr>" demo_amb]
          login_contract [OF uniq, of demo_env "\<lparr>authorization = None,
            body = no_body\<lparr>email := Str ''nobody@x.com'', password := Str ''secret1''\<rparr>,
            params_id = 0\<rparr>" demo_amb]
          login_contract [OF uniq, of demo_env "\<lparr>authorization = None,
            body = no_body\<lparr>email := Str ''a@x.com'', password := Str ''secret2''\<rparr>,
            params_id = 0\<rparr>" demo_amb]
          login_contract [OF uniq, of demo_env "\<lparr>authorization = None,
            body = no_body\<lparr>email := Str ''a@x.com'', password := Str ''secret1''\<rparr>,
            params_id = 0\<rparr>" demo_amb]
    by (simp add: demo_db_def demo_env_def no_body_def login_errors_def)
qed

subsection \<open>Signup\<close>

lemma signup_chains:
  "body_chain env ''name'' (name b) NotEmpty ''Name is required''
   @ body_chain env ''email'' (email b) IsEmail ''Invalid email''
   @ body_chain env ''password'' (password b) (IsLength 6)
       ''Password must be at least 6 characters long''
   = signup_errors env b"
  by (simp add: body_chain_def signup_errors_def not_le)

lemma signup_errors_empty:
  "signup_errors env b = [] \<longleftrightarrow>
     toString (name b) \<noteq> [] \<and> isEmail env (toString (email b))
     \<and> 6 \<le> length (toString (password b))"
  by (auto simp: signup_errors_def)

lemma signup_invalid:
  assumes "signup_errors env (body req) \<noteq> []"
  shows "post_signup env amb req d
           = (Response 400 (JObj [(''errors'', JArr (signup_errors env (body req)))]), d)"
  using assms by (simp add: post_signup_def Let_def signup_chains)

lemma unique_message:
  "str_includes (message (UniqueFailed ''users.email'')) ''UNIQUE constraint failed''"
  by simp

lemma signup_valid:
  assumes "signup_errors env (body req) = []"
      and "password (body req) = Str p"
      and "stored_text (name (body req)) = Some n"
      and "stored_text (email (body req)) = Some e"
  shows "post_signup env amb req d
           = (if e \<in> set (map u_email (users d))
              then (Response 400 (err_json ''Email already exists''), logged InsertUser d)
              else (Response 201
                      (JObj [(''id'', JNum (next_id (users_seq d) (map u_id (users d)))),
                             (''name'', to_json (name (body req))),
                             (''email'', to_json (email (body req))),
                             (''token'', JStr (jwt_sign env
                                (next_id (users_seq d) (map u_id (users d))) (now amb)))]),
                    logged InsertUser
                      (d\<lparr>users := users d @
                           [\<lparr>u_id = next_id (users_seq d) (map u_id (users d)), u_name = n,
                             u_email = e, u_password = bcrypt_hash env p (salt amb),
                             u_createdAt = current_timestamp amb\<rparr>],
                         users_seq := next_id (users_seq d) (map u_id (users d))\<rparr>)))"
  using assms unique_message
  by (simp add: post_signup_def Let_def signup_chains insert_user_def stored_text_def
        del: str_includes.simps message.simps)

text \<open>
  A password given as a number of six digits or more passes the length check, and the hash
  then throws: the request gets no answer and the store is not consulted.
\<close>

lemma signup_number_password:
  assumes "signup_errors env (body req) = []"
      and "password (body req) = Num k"
  shows "post_signup env amb req d = (NoResponse, d)"
  using assms by (simp add: post_signup_def Let_def signup_chains)

text \<open>
  Claim C5 says that a signup which meets the three field constraints creates a user. At
  the example store, a signup with a name, a well-formed address and a password of seven
  characters, whose address a stored user has, is answered with 400 and creates nothing.
\<close>

theorem signup_duplicate_counterexample:
  "''a@x.com'' \<in> set (map u_email (users demo_db))
   \<and> post_signup demo_env demo_amb
      \<lparr>authorization = None,
        body = no_body\<lparr>name := Str ''A2'', email := Str ''a@x.com'',
                       password := Str ''secret9''\<rparr>,
        params_id = 0\<rparr> demo_db
     = (Response 400 (err_json ''Email already exists''), logged InsertUser demo_db)"
  by (simp add: demo_db_def demo_env_def post_signup_def body_chain_def no_body_def
        insert_user_def)

text \<open>
  Claim C5, amended. When the name is empty, the e-mail address fails the syntax check, or
  the password has fewer than six characters, the answer is 400 with one error for each
  field in violation, all of them together, and the store is untouched. When the three
  constraints hold, the password is a string and no stored user has the address, the
  answer is 201 with the id, the name and the address as they were sent and a token signed
  now for that id; the id is new, and the store gains the one row with that id, name and
  address, whose password column is the hash of the password with the salt of the
  request. That column is not the password that was sent, for a hash function that does
  not give the password back.
\<close>

theorem signup_contract:
  "(toString (name (body req)) = [] \<or> \<not> isEmail env (toString (email (body req)))
      \<or> length (toString (password (body req))) < 6 \<longrightarrow>
      post_signup env amb req d
        = (Response 400 (JObj [(''errors'', JArr (signup_errors env (body req)))]), d))
   \<and> (toString (name (body req)) \<noteq> [] \<and> isEmail env (toString (email (body req)))
      \<and> password (body req) = Str p \<and> 6 \<le> length p
      \<and> stored_text (name (body req)) = Some n
      \<and> stored_text (email (body req)) = Some e
      \<and> e \<notin> set (map u_email (users d))
      \<and> bcrypt_hash env p (salt amb) \<noteq> p \<longrightarrow>
      (let i = next_id (users_seq d) (map u_id (users d))
       in i \<notin> set (map u_id (users d))
        \<and> post_signup env amb req d
             = (Response 201
                  (JObj [(''id'', JNum i), (''name'', to_json (name (body req))),
                         (''email'', to_json (email (body req))),
                         (''token'', JStr (jwt_sign env i (now amb)))]),
                logged InsertUser
                  (d\<lparr>users := users d @
                       [\<lparr>u_id = i, u_name = n, u_email = e,
                         u_password = bcrypt_hash env p (salt amb),
                         u_createdAt = current_timestamp amb\<rparr>],
                     users_seq := i\<rparr>))
        \<and> u_password (last (users (snd (post_signup env amb req d)))) \<noteq> p))"
proof (intro conjI impI)
  assume "toString (name (body req)) = [] \<or> \<not> isEmail env (toString (email (body req)))
      \<or> length (toString (password (body req))) < 6"
  then have "signup_errors env (body req) \<noteq> []"
    by (auto simp: signup_errors_empty)
  then show "post_signup env amb req d
        = (Response 400 (JObj [(''errors'', JArr (signup_errors env (body req)))]), d)"
    by (rule signup_invalid)
next
  assume a: "toString (name (body req)) \<noteq> [] \<and> isEmail env (toString (email (body req)))
      \<and> password (body req) = Str p \<and> 6 \<le> length p
      \<and> stored_text (name (body req)) = Some n
      \<and> stored_text (email (body req)) = Some e
      \<and> e \<notin> set (map u_email (users d))
      \<and> bcrypt_hash env p (salt amb) \<noteq> p"
  then have ok: "signup_errors env (body req) = []"
    by (simp add: signup_errors_empty)
  have pw: "password (body req) = Str p" and sn: "stored_text (name (body req)) = Some n"
    and se: "stored_text (email (body req)) = Some e"
    using a by simp_all
  show "let i = next_id (users_seq d) (map u_id (users d))
       in i \<notin> set (map u_id (users d))
        \<and> post_signup env amb req d
             = (Response 201
                  (JObj [(''id'', JNum i), (''name'', to_json (name (body req))),
                         (''email'', to_json (email (body req))),
                         (''token'', JStr (jwt_sign env i (now amb)))]),
                logged InsertUser
                  (d\<lparr>users := users d @
                       [\<lparr>u_id = i, u_name = n, u_email = e,
                         u_password = bcrypt_hash env p (salt amb),
                         u_createdAt = current_timestamp amb\<rparr>],
                     users_seq := i\<rparr>))
        \<and> u_password (last (users (snd (post_signup env amb req d)))) \<noteq> p"
    using signup_valid [OF ok pw sn se, of amb d] a
      next_id_fresh [of "users_seq d" "map u_id (users d)"]
    by (simp add: Let_def)
qed

text \<open>
  Claim C5, amended, at the example store: a signup with no name and a short password,
  and one that succeeds, with a number for a name.
\<close>

theorem signup_contract_witness:
  "post_signup demo_env demo_amb
      \<lparr>authorization = None,
        body = no_body\<lparr>email := Str ''c@x.com'', password := Str ''abc''\<rparr>,
        params_id = 0\<rparr> demo_db
     = (Response 400
          (JObj [(''errors'',
                  JArr [field_error ''name'' Undefined ''Name is required'',
                        field_error ''password'' (Str ''abc'')
                          ''Password must be at least 6 characters long''])]),
        demo_db)
   \<and> post_signup demo_env demo_amb
      \<lparr>authorization = None,
        body = no_body\<lparr>name := Num 7, email := Str ''c@x.com'',
                       password := Str ''secret3''\<rparr>,
        params_id = 0\<rparr> demo_db
     = (Response 201
          (JObj [(''id'', JNum 3), (''name'', JNum 7), (''email'', JStr ''c@x.com''),
                 (''token'', JStr ''uuu'')]),
        logged InsertUser
          (demo_db\<lparr>users := users demo_db @
               [\<lparr>u_id = 3, u_name = ''7'', u_email = ''c@x.com'',
                 u_password = ''$2b$3terces'', u_createdAt = ''2024-01-01 00:00:00''\<rparr>],
             users_seq := 3\<rparr>))
   \<and> u_password (last (users (snd (post_signup demo_env demo_amb
      \<lparr>authorization = None,
        body = no_body\<lparr>name := Num 7, email := Str ''c@x.com'',
                       password := Str ''secret3''\<rparr>,
        params_id = 0\<rparr> demo_db)))) \<noteq> ''secret3''"
proof -
  have i: "next_id (users_seq demo_db) (map u_id (users demo_db)) = 3"
    by (simp add: demo_db_def next_id_def)
  have e: "''c@x.com'' \<notin> set (map u_email (users demo_db))"
    by (simp add: demo_db_def)
  have seven: "decimal 7 = ''7''"
    by (simp add: decimal_def digits.simps digit_char_def)
  show ?thesis
    using signup_contract [where req = "\<lparr>authorization = None,
            body = no_body\<lparr>email := Str ''c@x.com'', password := Str ''abc''\<rparr>,
            params_id = 0\<rparr>" and env = demo_env and amb = demo_amb and d = demo_db]
          signup_contract [where req = "\<lparr>authorization = None,
            body = no_body\<lparr>name := Num 7, email := Str ''c@x.com'',
                       password := Str ''secret3''\<rparr>,
            params_id = 0\<rparr>" and env = demo_env and amb = demo_amb and d = demo_db
            and p = "''secret3''" and n = "''7''" and e = "''c@x.com''"]
          e
    by (simp add: no_body_def signup_errors_def i demo_env_def demo_amb_def numeral_3_eq_3 seven)
qed

lemma long_text_is_string:
  assumes "6 \<le> length (toString v)" "\<forall>k. v \<noteq> Num k"
  shows "v = Str (toString v)"
  using assms by (cases v) (auto split: if_splits)

text \<open>
  Claim C6 says that a signup with a stored address gets the duplicate-address error
  whatever the name and password. At the example store, such a signup with the empty name
  gets the validation error of the name instead.
\<close>

theorem duplicate_email_counterexample:
  "''a@x.com'' \<in> set (map u_email (users demo_db))
   \<and> post_signup demo_env demo_amb
      \<lparr>authorization = None,
        body = no_body\<lparr>name := Str [], email := Str ''a@x.com'',
                       password := Str ''secret9''\<rparr>,
        params_id = 0\<rparr> demo_db
     = (Response 400
          (JObj [(''errors'', JArr [field_error ''name'' (Str []) ''Name is required''])]),
        demo_db)"
  by (simp add: demo_db_def demo_env_def post_signup_def body_chain_def no_body_def)

text \<open>
  Claim C6, amended. A signup whose address a stored user has is answered with status 400
  and adds no user, whatever the name and the password, a password that is a number
  apart. When the name is non-empty, the
  address passes the syntax check and the password has six characters or more, the answer
  is the error \<open>Email already exists\<close>; otherwise it is the list of validation errors, and
  the store is not consulted.
\<close>

theorem duplicate_email:
  assumes "email (body req) = Str e"
      and "e \<in> set (map u_email (users d))"
      and "\<forall>k. password (body req) \<noteq> Num k"
  shows "post_signup env amb req d
           = (if toString (name (body req)) \<noteq> [] \<and> isEmail env e
                 \<and> 6 \<le> length (toString (password (body req)))
              then (Response 400 (err_json ''Email already exists''), logged InsertUser d)
              else (Response 400 (JObj [(''errors'', JArr (signup_errors env (body req)))]), d))
       \<and> users (snd (post_signup env amb req d)) = users d"
proof (cases "signup_errors env (body req) = []")
  case True
  then have v: "toString (name (body req)) \<noteq> []" "6 \<le> length (toString (password (body req)))"
    by (auto simp: signup_errors_empty)
  obtain n where n: "stored_text (name (body req)) = Some n"
    using toString_nonempty_stored [OF v(1)] by blast
  have e: "stored_text (email (body req)) = Some e"
    by (simp add: assms(1))
  have "post_signup env amb req d
          = (Response 400 (err_json ''Email already exists''), logged InsertUser d)"
    using signup_valid [OF True long_text_is_string [OF v(2) assms(3)] n e, of amb d] assms(2)
    by simp
  moreover have "toString (name (body req)) \<noteq> [] \<and> isEmail env e
            \<and> 6 \<le> length (toString (password (body req)))"
    using True assms(1) by (simp add: signup_errors_empty)
  ultimately show ?thesis by simp
next
  case False
  then have "\<not> (toString (name (body req)) \<noteq> [] \<and> isEmail env e
            \<and> 6 \<le> length (toString (password (body req))))"
    using assms(1) by (simp add: signup_errors_empty)
  moreover have "post_signup env amb req d
          = (Response 400 (JObj [(''errors'', JArr (signup_errors env (body req)))]), d)"
    by (rule signup_invalid [OF False])
  ultimately show ?thesis by (simp only: if_False) simp
qed

text \<open>
  Claim C6, amended, at the example store: the address of user 2 again, with a password
  long enough and with a short one.
\<close>

theorem duplicate_email_witness:
  "post_signup demo_env demo_amb
      \<lparr>authorization = None,
        body = no_body\<lparr>name := Str ''Z'', email := Str ''b@x.com'',
                       password := Str ''another''\<rparr>,
        params_id = 0\<rparr> demo_db
     = (Response 400 (err_json ''Email already exists''), logged InsertUser demo_db)
   \<and> post_signup demo_env demo_amb
      \<lparr>authorization = None,
        body = no_body\<lparr>name := Str ''Z'', email := Str ''b@x.com'', password := Str ''short''\<rparr>,
        params_id = 0\<rparr> demo_db
     = (Response 400
          (JObj [(''errors'',
                  JArr [field_error ''password'' (Str ''short'')
                          ''Password must be at least 6 characters long''])]),
        demo_db)"
  using duplicate_email [of "\<lparr>authorization = None,
          body = no_body\<lparr>name := Str ''Z'', email := Str ''b@x.com'',
                       password := Str ''another''\<rparr>,
          params_id = 0\<rparr>" "''b@x.com''" demo_db demo_env demo_amb]
        duplicate_email [of "\<lparr>authorization = None,
          body = no_body\<lparr>name := Str ''Z'', email := Str ''b@x.com'',
                       password := Str ''short''\<rparr>,
          params_id = 0\<rparr>" "''b@x.com''" demo_db demo_env demo_amb]
  by (simp add: no_body_def demo_db_def demo_env_def signup_errors_def)

subsection \<open>Creating a recipe\<close>

lemma recipe_chains:
  "body_chain env ''title'' (title b) NotEmpty ''Title is required''
   @ body_chain env ''description'' (description b) NotEmpty ''Description is required''
   @ body_chain env ''ingredients'' (ingredients b) NotEmpty ''Ingredients are required''
   @ body_chain env ''instructions'' (instructions b) NotEmpty ''Instructions are required''
   = recipe_errors b"
  by (simp add: body_chain_def recipe_errors_def)

lemma recipe_errors_empty:
  "recipe_errors b = [] \<longleftrightarrow>
     toString (title b) \<noteq> [] \<and> toString (description b) \<noteq> []
     \<and> toString (ingredients b) \<noteq> [] \<and> toString (instructions b) \<noteq> []"
  by (auto simp: recipe_errors_def)

text \<open>
  Claim C7. For a request of a user, when one of title, description, ingredients and
  instructions is empty (absent, \<open>null\<close> or the empty string), the answer is 400 with one
  error for each empty field, and the store is untouched.
\<close>

theorem create_validation:
  assumes "authenticated_as env amb req uid"
      and "toString (title (body req)) = [] \<or> toString (description (body req)) = []
           \<or> toString (ingredients (body req)) = [] \<or> toString (instructions (body req)) = []"
  shows "post_recipes env amb req d
           = (Response 400 (JObj [(''errors'', JArr (recipe_errors (body req)))]), d)"
proof -
  have "recipe_errors (body req) \<noteq> []"
    using assms(2) by (auto simp: recipe_errors_empty)
  then show ?thesis
    by (simp add: post_recipes_def authenticateToken_pass [OF assms(1)] Let_def recipe_chains)
qed

text \<open>
  Claim C7, at the example store: an empty title and \<open>null\<close> instructions give the two
  errors.
\<close>

theorem create_validation_witness:
  "post_recipes demo_env demo_amb
      \<lparr>authorization = Some ''Bearer u'',
        body = no_body\<lparr>title := Str [], description := Str ''x'', ingredients := Str ''x'',
                       instructions := Null\<rparr>,
        params_id = 0\<rparr> demo_db
     = (Response 400
          (JObj [(''errors'',
                  JArr [field_error ''title'' (Str []) ''Title is required'',
                        field_error ''instructions'' Null ''Instructions are required''])]),
        demo_db)"
proof -
  have auth: "authenticated_as demo_env demo_amb
      \<lparr>authorization = Some ''Bearer u'', body = b, params_id = i\<rparr> 1" for b i
    by (simp add: authenticated_as_def demo_env_def)
  show ?thesis
    using create_validation [OF auth, of "no_body\<lparr>title := Str [], description := Str ''x'',
            ingredients := Str ''x'', instructions := Null\<rparr>" 0 demo_db]
    by (simp add: no_body_def recipe_errors_def)
qed





subsection \<open>The key constraints hold in every store the service reaches\<close>

lemma store_inv_empty: "store_inv empty_db"
  by (simp add: store_inv_def empty_db_def)

lemma store_inv_logged [simp]: "store_inv (logged s d) = store_inv d"
  by (simp add: store_inv_def)

lemma authenticateToken_preserves:
  assumes "P d" "\<And>uid. P (snd (handler uid d))"
  shows "P (snd (authenticateToken env amb req handler d))"
  using assms by (simp add: authenticateToken_def split: option.splits)

lemma insert_user_inv:
  assumes "store_inv d" "insert_user n e p ts d = (res, d')"
  shows "store_inv d'"
  using assms next_id_fresh [of "users_seq d" "map u_id (users d)"]
  by (auto simp: insert_user_def store_inv_def Let_def split: option.splits if_splits)

lemma insert_recipe_inv:
  assumes "store_inv d" "insert_recipe env t de ing ins img cat uid ts d = (res, d')"
  shows "store_inv d'"
  using assms next_id_fresh [of "recipes_seq d" "map r_id (recipes d)"]
  by (auto simp: insert_recipe_def store_inv_def Let_def split: option.splits)

lemma update_recipe_inv:
  assumes "store_inv d" "update_recipe env t de ing ins cat img rid uid d = (res, d')"
  shows "store_inv d'"
proof -
  have key: "r_id \<circ> (\<lambda>r. if P r then r\<lparr>r_title := a, r_description := b, r_ingredients := c,
            r_instructions := e, r_categoryId := f, r_imageUrl := g\<rparr> else r) = r_id"
    for P a b c e f g
    by (auto simp: fun_eq_iff)
  show ?thesis
    using assms
    by (auto simp: update_recipe_def store_inv_def Let_def key split: option.splits if_splits)
qed

lemma post_signup_inv: "store_inv d \<Longrightarrow> store_inv (snd (post_signup env amb req d))"
proof (cases "signup_errors env (body req) = []")
  case False
  assume "store_inv d"
  then show ?thesis by (simp add: signup_invalid [OF False])
next
  case True
  assume inv: "store_inv d"
  show ?thesis
  proof (cases "password (body req)")
    case (Str p)
    obtain res d' where ins: "insert_user (bind_param (name (body req)))
        (bind_param (email (body req))) (SText (bcrypt_hash env p (salt amb)))
        (current_timestamp amb) d = (res, d')"
      by (cases "insert_user (bind_param (name (body req))) (bind_param (email (body req)))
        (SText (bcrypt_hash env p (salt amb))) (current_timestamp amb) d") blast
    have "store_inv d'" by (rule insert_user_inv [OF inv ins])
    then show ?thesis
      using True Str ins
      by (cases res) (simp_all add: post_signup_def Let_def signup_chains)
  qed (use inv True in \<open>simp_all add: post_signup_def Let_def signup_chains\<close>)
qed

lemma post_login_inv: "store_inv d \<Longrightarrow> store_inv (snd (post_login env amb req d))"
  by (simp add: post_login_def Let_def select_user_by_email_def
        split: jsval.splits option.splits)

lemma get_recipes_inv: "store_inv d \<Longrightarrow> store_inv (snd (get_recipes env amb req d))"
  unfolding get_recipes_def
  by (rule authenticateToken_preserves) (simp_all add: select_recipes_by_user_def)

lemma get_recipe_by_id_inv: "store_inv d \<Longrightarrow> store_inv (snd (get_recipe_by_id env amb req d))"
  unfolding get_recipe_by_id_def
  by (rule authenticateToken_preserves) (simp_all add: select_recipe_def split: option.splits)

lemma post_recipes_inv: "store_inv d \<Longrightarrow> store_inv (snd (post_recipes env amb req d))"
  unfolding post_recipes_def
proof (rule authenticateToken_preserves)
  fix uid
  assume inv: "store_inv d"
  obtain res d' where ins: "insert_recipe env (bind_param (title (body req)))
      (bind_param (description (body req))) (bind_param (ingredients (body req)))
      (bind_param (instructions (body req))) (bind_param (imageUrl (body req)))
      (bind_param (categoryId (body req))) uid (current_timestamp amb) d = (res, d')"
    by (cases "insert_recipe env (bind_param (title (body req)))
      (bind_param (description (body req))) (bind_param (ingredients (body req)))
      (bind_param (instructions (body req))) (bind_param (imageUrl (body req)))
      (bind_param (categoryId (body req))) uid (current_timestamp amb) d") blast
  have "store_inv d'" by (rule insert_recipe_inv [OF inv ins])
  then show "store_inv (snd (let b = body req;
           errors = body_chain env ''title'' (title b) NotEmpty ''Title is required''
                  @ body_chain env ''description'' (description b) NotEmpty
                      ''Description is required''
                  @ body_chain env ''ingredients'' (ingredients b) NotEmpty
                      ''Ingredients are required''
                  @ body_chain env ''instructions'' (instructions b) NotEmpty
                      ''Instructions are required''
       in if errors \<noteq> [] then (Response 400 (JObj [(''errors'', JArr errors)]), d)
          else
           (case insert_recipe env (bind_param (title b)) (bind_param (description b))
                   (bind_param (ingredients b)) (bind_param (instructions b))
                   (bind_param (imageUrl b)) (bind_param (categoryId b)) uid
                   (current_timestamp amb) d of
              (Inl err, d') \<Rightarrow> (Response 500 (err_json ''Failed to add recipe''), d')
            | (Inr lastID, d') \<Rightarrow>
                (Response 201
                   (JObj [(''id'', JNum lastID), (''title'', to_json (title b)),
                          (''description'', to_json (description b)),
                          (''ingredients'', to_json (ingredients b)),
                          (''instructions'', to_json (instructions b)),
                          (''imageUrl'', to_json (imageUrl b)),
                          (''categoryId'', to_json (categoryId b))]), d'))))"
    using inv ins by (cases res) (simp_all add: Let_def recipe_chains)
qed

lemma put_recipe_by_id_inv: "store_inv d \<Longrightarrow> store_inv (snd (put_recipe_by_id env amb req d))"
  unfolding put_recipe_by_id_def
proof (rule authenticateToken_preserves)
  fix uid
  assume inv: "store_inv d"
  obtain res d' where upd: "update_recipe env (bind_param (title (body req)))
      (bind_param (description (body req))) (bind_param (ingredients (body req)))
      (bind_param (instructions (body req))) (bind_param (categoryId (body req)))
      (bind_param (imageUrl (body req))) (params_id req) uid d = (res, d')"
    by (cases "update_recipe env (bind_param (title (body req)))
      (bind_param (description (body req))) (bind_param (ingredients (body req)))
      (bind_param (instructions (body req))) (bind_param (categoryId (body req)))
      (bind_param (imageUrl (body req))) (params_id req) uid d") blast
  have "store_inv d'" by (rule update_recipe_inv [OF inv upd])
  then show "store_inv (snd (let b = body req
       in case update_recipe env (bind_param (title b)) (bind_param (description b))
                 (bind_param (ingredients b)) (bind_param (instructions b))
                 (bind_param (categoryId b)) (bind_param (imageUrl b))
                 (params_id req) uid d of
            (Inl err, d') \<Rightarrow> (Response 500 (err_json ''Failed to update recipe''), d')
          | (Inr changes, d') \<Rightarrow>
              if changes = 0
              then (Response 404 (err_json ''Recipe not found or unauthorized''), d')
              else (Response 200 (JObj [(''message'', JStr ''Recipe updated successfully'')]), d')))"
    using upd by (cases res) (simp_all add: Let_def)
qed

lemma store_inv_app: "store_inv d \<Longrightarrow> store_inv (snd (app env amb r req d))"
  by (cases r)
    (simp_all add: post_signup_inv post_login_inv get_recipes_inv get_recipe_by_id_inv
       post_recipes_inv put_recipe_by_id_inv)

lemma store_inv_run: "store_inv d \<Longrightarrow> store_inv (run env reqs d)"
  by (induction env reqs d rule: run.induct) (simp_all add: store_inv_app del: app.simps)

subsection \<open>A recipe stays as it was created until its owner updates it\<close>













end
